theory Spec2Isabelle
  imports Complex_Main
begin

section \<open>JavaScript numbers and scalar values\<close>

text \<open>
  A JavaScript number is a finite value, one of the two infinities, or NaN. Finite doubles
  are modelled by the real they denote, and an operation on them by the exact operation:
  the rounding of a result to the nearest double is not computed. Where a property turns on
  that rounding, the rounded value is an argument of the definition.
  A stored scalar field is absent (\<open>null\<close> or \<open>undefined\<close>), a number or a string.
\<close>

datatype jsnum = Fin real | PInf | NInf | NaN

datatype jsval = JNull | JNum jsnum | JStr string

fun isNaN :: "jsnum \<Rightarrow> bool" where
  "isNaN NaN = True"
| "isNaN _ = False"

fun js_sub :: "jsnum \<Rightarrow> jsnum \<Rightarrow> jsnum" where
  "js_sub (Fin x) (Fin y) = Fin (x - y)"
| "js_sub NaN _ = NaN"
| "js_sub _ NaN = NaN"
| "js_sub PInf PInf = NaN"
| "js_sub NInf NInf = NaN"
| "js_sub PInf _ = PInf"
| "js_sub NInf _ = NInf"
| "js_sub (Fin x) PInf = NInf"
| "js_sub (Fin x) NInf = PInf"

fun js_abs :: "jsnum \<Rightarrow> jsnum" where
  "js_abs (Fin x) = Fin \<bar>x\<bar>"
| "js_abs PInf = PInf"
| "js_abs NInf = PInf"
| "js_abs NaN = NaN"

text \<open>The relational operator \<open><\<close>: every comparison with NaN is false.\<close>

fun js_lt :: "jsnum \<Rightarrow> jsnum \<Rightarrow> bool" where
  "js_lt (Fin x) (Fin y) = (x < y)"
| "js_lt NaN _ = False"
| "js_lt _ NaN = False"
| "js_lt PInf _ = False"
| "js_lt NInf NInf = False"
| "js_lt NInf _ = True"
| "js_lt (Fin x) PInf = True"
| "js_lt (Fin x) NInf = False"

subsection \<open>parseFloat\<close>

text \<open>
  \<open>parseFloat\<close> is the runtime's: it converts its argument to a string, drops leading
  white space and reads the longest prefix that is a decimal literal (an optional sign,
  then \<open>Infinity\<close> or digits with an optional fraction and exponent). With no such prefix
  the result is NaN. A number converts to a string that reads back as the same number.
  A character here is a code unit below 256, so the white space that can occur is the
  ASCII one and the no-break space. A decimal value at or beyond \<open>2^1024 - 2^970\<close>
  overflows to an infinity; a smaller one is kept as it is written, not rounded to the
  nearest double.
\<close>

definition to_number :: "real \<Rightarrow> jsnum" where
  "to_number v =
     (if 2 ^ 1024 - 2 ^ 970 \<le> v then PInf
      else if v \<le> - (2 ^ 1024 - 2 ^ 970) then NInf
      else Fin v)"

definition is_space :: "char \<Rightarrow> bool" where
  "is_space c = (c \<in> set [CHR '' '', CHR 0x09, CHR 0x0A, CHR 0x0B, CHR 0x0C, CHR 0x0D, CHR 0xA0])"

definition is_digit :: "char \<Rightarrow> bool" where
  "is_digit c = (c \<in> set ''0123456789'')"

definition digit_val :: "char \<Rightarrow> nat" where
  "digit_val c = of_char c - 48"

definition digits_val :: "string \<Rightarrow> nat" where
  "digits_val ds = foldl (\<lambda>n c. 10 * n + digit_val c) 0 ds"

definition is_sign :: "char \<Rightarrow> bool" where
  "is_sign c = (c = CHR ''+'' \<or> c = CHR ''-'')"

definition strip_sign :: "string \<Rightarrow> bool \<times> string" where
  "strip_sign s = (case s of [] \<Rightarrow> (False, s)
                   | c # r \<Rightarrow> if is_sign c then (c = CHR ''-'', r) else (False, s))"

definition pow10 :: "bool \<Rightarrow> nat \<Rightarrow> real" where
  "pow10 neg e = (if neg then 1 / 10 ^ e else 10 ^ e)"

definition exponent_part :: "string \<Rightarrow> real" where
  "exponent_part s = (case s of [] \<Rightarrow> 1
     | c # r \<Rightarrow> if c = CHR ''e'' \<or> c = CHR ''E''
                then (let (neg, r') = strip_sign r; ds = takeWhile is_digit r'
                      in if ds = [] then 1 else pow10 neg (digits_val ds))
                else 1)"

definition parseFloat_str :: "string \<Rightarrow> jsnum" where
  "parseFloat_str s =
     (let (neg, s2) = strip_sign (dropWhile is_space s) in
      if take 8 s2 = ''Infinity'' then (if neg then NInf else PInf)
      else
        let ip = takeWhile is_digit s2;
            r1 = dropWhile is_digit s2;
            dot = (case r1 of [] \<Rightarrow> False | c # _ \<Rightarrow> c = CHR ''.'');
            fp = (if dot then takeWhile is_digit (tl r1) else []);
            r2 = (if dot then dropWhile is_digit (tl r1) else r1)
        in if ip = [] \<and> fp = [] then NaN
           else to_number ((if neg then - 1 else 1)
                     * (real (digits_val ip) + real (digits_val fp) / 10 ^ length fp)
                     * exponent_part r2))"

fun parseFloat :: "jsval \<Rightarrow> jsnum" where
  "parseFloat JNull = NaN"
| "parseFloat (JNum n) = n"
| "parseFloat (JStr s) = parseFloat_str s"

subsection \<open>Printing a natural number\<close>

fun digit_char :: "nat \<Rightarrow> char" where
  "digit_char n = char_of (48 + n)"

function show_nat :: "nat \<Rightarrow> string" where
  "show_nat n = (if n < 10 then [digit_char n] else show_nat (n div 10) @ [digit_char (n mod 10)])"
  by pat_completeness auto
termination
  by (relation "measure id") auto

declare show_nat.simps [simp del]

section \<open>Geodistance\<close>

definition toRad :: "real \<Rightarrow> real" where
  "toRad x = (x * pi) / 180"

text \<open>\<open>Math.atan2 y x\<close>, the angle of the point \<open>(x, y)\<close>.\<close>

definition atan2 :: "real \<Rightarrow> real \<Rightarrow> real" where
  "atan2 y x =
     (if 0 < x then arctan (y / x)
      else if x < 0 then (if 0 \<le> y then arctan (y / x) + pi else arctan (y / x) - pi)
      else if 0 < y then pi / 2
      else if y < 0 then - (pi / 2)
      else 0)"

text \<open>\<open>Math.sqrt\<close>: NaN for a negative number.\<close>

definition js_sqrt :: "real \<Rightarrow> jsnum" where
  "js_sqrt x = (if x < 0 then NaN else Fin (sqrt x))"

text \<open>
  \<open>haversineDistanceKm\<close> in two steps. The first is the term \<open>a\<close>, here in exact
  arithmetic; the program holds the double that its rounded operations give, which is near
  this value and need not be equal to it. The second is what the last two lines of the
  function do with the double \<open>a\<close>, whatever it is: two square roots with no test of
  their arguments, \<open>atan2\<close>, and the product with the radius.
\<close>

definition haversine_term :: "real \<Rightarrow> real \<Rightarrow> real \<Rightarrow> real \<Rightarrow> real" where
  "haversine_term lat1 lon1 lat2 lon2 =
     (let dLat = toRad (lat2 - lat1);
          dLon = toRad (lon2 - lon1)
      in sin (dLat / 2) * sin (dLat / 2)
         + cos (toRad lat1) * cos (toRad lat2) * sin (dLon / 2) * sin (dLon / 2))"

definition haversine_of_term :: "real \<Rightarrow> jsnum" where
  "haversine_of_term a =
     (let R = 6371 in
      case js_sqrt a of
        Fin s \<Rightarrow>
          (case js_sqrt (1 - a) of
             Fin t \<Rightarrow> Fin (R * (2 * atan2 s t))
           | _ \<Rightarrow> NaN)
      | _ \<Rightarrow> NaN)"

text \<open>The function with the term read exactly: the model of the distances below.\<close>

definition haversineDistanceKm :: "real \<Rightarrow> real \<Rightarrow> real \<Rightarrow> real \<Rightarrow> jsnum" where
  "haversineDistanceKm lat1 lon1 lat2 lon2 =
     haversine_of_term (haversine_term lat1 lon1 lat2 lon2)"

text \<open>
  The same function on JavaScript numbers, for a finite first point: an infinite or NaN
  coordinate of the second point makes a difference infinite or NaN, its sine NaN, and
  NaN goes through every later operation.
\<close>

fun haversine_js :: "real \<Rightarrow> real \<Rightarrow> jsnum \<Rightarrow> jsnum \<Rightarrow> jsnum" where
  "haversine_js lat1 lon1 (Fin lat2) (Fin lon2) = haversineDistanceKm lat1 lon1 lat2 lon2"
| "haversine_js lat1 lon1 _ _ = NaN"

section \<open>The document store\<close>

type_synonym doc_id = string

record 'a latlng =
  lat :: 'a
  lng :: 'a

text \<open>
  A booking document. The type parameter is the representation of a pickup coordinate:
  the matcher parses coordinates and so reads any scalar (\<open>jsval\<close>); the planner
  takes them as numbers and is modelled on numbers (\<open>real option\<close>).
\<close>

record 'c booking =
  status :: string
  pickup :: "'c latlng option"
  number :: "string option"
  createdAt :: "nat option"
  assignedVehicleId :: "doc_id option"
  assignedDriverId :: "string option"
  verificationCode :: "string option"
  assignedAt :: "nat option"

text \<open>
  A vehicle document. A coordinate of its location is a finite number or absent;
  \<open>currentPassengers\<close> is an array of booking ids or absent.
\<close>

record vehicle =
  vehicleStatus :: string
  location :: "real option latlng option"
  currentPassengers :: "doc_id list option"
  driverId :: "string option"
  fcmToken :: "string option"
  targetLocation :: "real latlng option"
  rebalanceReason :: "string option"
  rebalanceTimestamp :: "nat option"

text \<open>
  A collection is a list of documents with their ids, in the order a query returns them.
  Reading a document by id finds the first entry of that id; an update changes the entries
  of that id.
\<close>

record 'c db =
  bookings :: "(doc_id \<times> 'c booking) list"
  vehicles :: "(doc_id \<times> vehicle) list"

definition get_doc :: "(doc_id \<times> 'd) list \<Rightarrow> doc_id \<Rightarrow> 'd option" where
  "get_doc col i = map_of col i"

definition update_doc :: "doc_id \<Rightarrow> ('d \<Rightarrow> 'd) \<Rightarrow> (doc_id \<times> 'd) list \<Rightarrow> (doc_id \<times> 'd) list" where
  "update_doc i f col = map (\<lambda>(j, d). if j = i then (j, f d) else (j, d)) col"

section \<open>Vehicle matcher\<close>

datatype error =
    BookingNotFound
  | DocumentNotFound
  | MissingPickup
  | InvalidPickup
  | BookingDisappeared
  | BookingAlreadyHandled
  | VehicleDisappeared
  | VehicleFull
  | TypeError

text \<open>
  An entry of \<open>candidates\<close>. Its field \<open>raw\<close>, the vehicle document, is never read
  and is left out.
\<close>

record candidate =
  cid :: doc_id
  cdriverId :: "string option"
  dist :: jsnum
  passengerCount :: nat
  cfcmToken :: "string option"

text \<open>\<open>Array.isArray(v.currentPassengers) ? v.currentPassengers : []\<close>\<close>

definition passengers_of :: "vehicle \<Rightarrow> doc_id list" where
  "passengers_of v = (case currentPassengers v of Some ps \<Rightarrow> ps | None \<Rightarrow> [])"

text \<open>\<open>s || null\<close> for an optional string: the empty string is falsy.\<close>

definition or_null :: "string option \<Rightarrow> string option" where
  "or_null s = (case s of None \<Rightarrow> None | Some t \<Rightarrow> if t = [] then None else Some t)"

definition candidate_of :: "jsnum \<Rightarrow> jsnum \<Rightarrow> doc_id \<times> vehicle \<Rightarrow> candidate option" where
  "candidate_of pickupLat pickupLng doc =
     (let v = snd doc; passengers = passengers_of v in
      if length passengers \<ge> 7 then None
      else case location v of
             None \<Rightarrow> None
           | Some l \<Rightarrow>
               (case lat l of
                  None \<Rightarrow> None
                | Some vlat \<Rightarrow>
                    (case lng l of
                       None \<Rightarrow> None
                     | Some vlng \<Rightarrow>
                         Some \<lparr>cid = fst doc,
                               cdriverId = driverId v,
                               dist = haversine_js vlat vlng pickupLat pickupLng,
                               passengerCount = length passengers,
                               cfcmToken = or_null (fcmToken v)\<rparr>)))"

definition idle_vehicles :: "'c db \<Rightarrow> (doc_id \<times> vehicle) list" where
  "idle_vehicles d = filter (\<lambda>doc. vehicleStatus (snd doc) = ''idle'') (vehicles d)"

definition scanCandidates :: "jsnum \<Rightarrow> jsnum \<Rightarrow> 'c db \<Rightarrow> candidate list" where
  "scanCandidates pickupLat pickupLng d =
     List.map_filter (candidate_of pickupLat pickupLng) (idle_vehicles d)"

text \<open>The comparator handed to \<open>sort\<close>: the number it returns.\<close>

definition compareCandidates :: "candidate \<Rightarrow> candidate \<Rightarrow> jsnum" where
  "compareCandidates a b =
     (if js_lt (js_abs (js_sub (dist a) (dist b))) (Fin 0.001)
      then Fin (real (passengerCount a) - real (passengerCount b))
      else js_sub (dist a) (dist b))"

text \<open>
  \<open>Array.prototype.sort\<close> is the runtime's. The program runs on Node, whose engine takes
  a NaN from the comparator as 0 and only tests whether the result is negative. It finds
  the run the array starts with (elements each not before the one in front of it, or each
  strictly before it; such a descending run is reversed) and puts every later element into
  the sorted front by binary insertion. An array of 64 or more elements is cut into such
  runs that are merged; with a consistent comparator the result is the same stable order,
  with another comparator the order given here is that of an array of fewer than 64.
\<close>

definition sort_lt :: "('a \<Rightarrow> 'a \<Rightarrow> jsnum) \<Rightarrow> 'a \<Rightarrow> 'a \<Rightarrow> bool" where
  "sort_lt cmp x y = js_lt (cmp x y) (Fin 0)"

fun extend_run ::
  "('a \<Rightarrow> 'a \<Rightarrow> jsnum) \<Rightarrow> bool \<Rightarrow> 'a \<Rightarrow> 'a list \<Rightarrow> 'a list \<times> 'a list" where
  "extend_run cmp desc prev [] = ([], [])"
| "extend_run cmp desc prev (x # xs) =
     (if sort_lt cmp x prev = desc
      then (case extend_run cmp desc x xs of (run, rest) \<Rightarrow> (x # run, rest))
      else ([], x # xs))"

fun count_and_make_run :: "('a \<Rightarrow> 'a \<Rightarrow> jsnum) \<Rightarrow> 'a list \<Rightarrow> 'a list \<times> 'a list" where
  "count_and_make_run cmp [] = ([], [])"
| "count_and_make_run cmp [x] = ([x], [])"
| "count_and_make_run cmp (x0 # x1 # xs) =
     (let desc = sort_lt cmp x1 x0 in
      case extend_run cmp desc x1 xs of
        (run, rest) \<Rightarrow> ((if desc then rev (x0 # x1 # run) else x0 # x1 # run), rest))"

function binary_insert :: "('a \<Rightarrow> 'a \<Rightarrow> jsnum) \<Rightarrow> 'a \<Rightarrow> 'a list \<Rightarrow> 'a list" where
  "binary_insert cmp pivot xs =
     (if xs = [] then [pivot]
      else
        let mid = length xs div 2 in
        if sort_lt cmp pivot (xs ! mid)
        then binary_insert cmp pivot (take mid xs) @ drop mid xs
        else take (mid + 1) xs @ binary_insert cmp pivot (drop (mid + 1) xs))"
  by pat_completeness auto
termination
  by (relation "measure (\<lambda>(cmp, pivot, xs). length xs)") auto

declare binary_insert.simps [simp del]

definition array_sort :: "('a \<Rightarrow> 'a \<Rightarrow> jsnum) \<Rightarrow> 'a list \<Rightarrow> 'a list" where
  "array_sort cmp xs =
     (case count_and_make_run cmp xs of
        (run, rest) \<Rightarrow> foldl (\<lambda>sorted pivot. binary_insert cmp pivot sorted) run rest)"

text \<open>\<open>candidates.sort(...)\<close> and \<open>candidates[0]\<close>; \<open>None\<close> for no candidate.\<close>

definition chooseCandidate :: "candidate list \<Rightarrow> candidate option" where
  "chooseCandidate candidates =
     (case array_sort compareCandidates candidates of [] \<Rightarrow> None | chosen # _ \<Rightarrow> Some chosen)"

datatype selection = NotPending | NoCandidates | Chosen candidate

text \<open>The read-only part of \<open>assignDriverForBooking\<close>, up to the choice of a vehicle.\<close>

definition selectVehicle :: "jsval db \<Rightarrow> doc_id \<Rightarrow> error + selection" where
  "selectVehicle d bookingId =
     (case get_doc (bookings d) bookingId of
        None \<Rightarrow> Inl BookingNotFound
      | Some b \<Rightarrow>
          if status b \<noteq> ''pending'' then Inr NotPending
          else case pickup b of
                 None \<Rightarrow> Inl MissingPickup
               | Some p \<Rightarrow>
                   if lat p = JNull \<or> lng p = JNull then Inl MissingPickup
                   else
                     let pickupLat = parseFloat (lat p);
                         pickupLng = parseFloat (lng p)
                     in if isNaN pickupLat \<or> isNaN pickupLng then Inl InvalidPickup
                        else case chooseCandidate (scanCandidates pickupLat pickupLng d) of
                               None \<Rightarrow> Inr NoCandidates
                             | Some chosen \<Rightarrow> Inr (Chosen chosen))"

text \<open>
  The two values the environment supplies to the transaction: the random four-digit
  number \<open>Math.floor(1000 + Math.random() * 9000)\<close> and the server's time.
\<close>

record env =
  randomCode :: nat
  serverTimestamp :: nat

text \<open>\<open>s.slice(-4)\<close>\<close>

definition slice_last4 :: "string \<Rightarrow> string" where
  "slice_last4 s = drop (length s - 4) s"

definition phone_of :: "'c booking \<Rightarrow> string" where
  "phone_of b = (case number b of None \<Rightarrow> [] | Some n \<Rightarrow> n)"

text \<open>The writes a transaction buffers: the two \<open>t.update\<close> calls.\<close>

datatype db_write =
    BookingWrite doc_id doc_id "string option" string nat
  | VehicleWrite doc_id "doc_id list"

fun apply_write :: "db_write \<Rightarrow> 'c db \<Rightarrow> 'c db" where
  "apply_write (BookingWrite i vid did code now) d =
     d\<lparr>bookings := update_doc i
         (\<lambda>b. b\<lparr>assignedVehicleId := Some vid,
                 assignedDriverId := did,
                 status := ''assigned'',
                 verificationCode := Some code,
                 assignedAt := Some now\<rparr>) (bookings d)\<rparr>"
| "apply_write (VehicleWrite i ps) d =
     d\<lparr>vehicles := update_doc i (\<lambda>v. v\<lparr>currentPassengers := Some ps\<rparr>) (vehicles d)\<rparr>"

text \<open>The body of the transaction: it reads, checks, and only then buffers its writes.\<close>

definition assignTransaction :: "env \<Rightarrow> doc_id \<Rightarrow> candidate \<Rightarrow> 'c db \<Rightarrow> error + db_write list" where
  "assignTransaction e bookingId chosen d =
     (case get_doc (bookings d) bookingId of
        None \<Rightarrow> Inl BookingDisappeared
      | Some bData \<Rightarrow>
          if status bData \<noteq> ''pending'' then Inl BookingAlreadyHandled
          else case get_doc (vehicles d) (cid chosen) of
                 None \<Rightarrow> Inl VehicleDisappeared
               | Some vData \<Rightarrow>
                   let passengers = passengers_of vData in
                   if length passengers \<ge> 7 then Inl VehicleFull
                   else
                     let phone = phone_of bData;
                         verificationCode =
                           (if slice_last4 phone = [] then show_nat (randomCode e)
                            else slice_last4 phone)
                     in Inr [BookingWrite bookingId (cid chosen) (or_null (cdriverId chosen))
                               verificationCode (serverTimestamp e),
                             VehicleWrite (cid chosen) (passengers @ [bookingId])])"

text \<open>
  \<open>runTransaction\<close>: a body that throws commits nothing; otherwise the buffered writes
  are applied in order.
\<close>

definition runTransaction :: "('c db \<Rightarrow> error + db_write list) \<Rightarrow> 'c db \<Rightarrow> (error + unit) \<times> 'c db" where
  "runTransaction body d =
     (case body d of
        Inl err \<Rightarrow> (Inl err, d)
      | Inr ws \<Rightarrow> (Inr (), foldl (\<lambda>acc w. apply_write w acc) d ws))"

text \<open>
  What a call that did not throw has done. An assignment carries the push message handed
  to the messaging service, when the chosen vehicle has a token: the token, the booking
  id and the code. A failed delivery is caught and logged, so it changes nothing here.
\<close>

datatype outcome = Skipped | NoVehicle | Assigned doc_id "(string \<times> doc_id \<times> string) option"

definition pushMessage :: "jsval db \<Rightarrow> doc_id \<Rightarrow> candidate \<Rightarrow> (string \<times> doc_id \<times> string) option" where
  "pushMessage d bookingId chosen =
     (case cfcmToken chosen of
        None \<Rightarrow> None
      | Some token \<Rightarrow>
          Some (token, bookingId,
                slice_last4 (case get_doc (bookings d) bookingId of
                               None \<Rightarrow> [] | Some b \<Rightarrow> phone_of b)))"

text \<open>
  \<open>assignDriverForBooking\<close>. The store may change between the first reads and the
  transaction: \<open>interfere\<close> is what other clients did to it in between. The result is
  what the call returned or threw, and the store it leaves.
\<close>

definition assignDriverForBooking ::
  "env \<Rightarrow> (jsval db \<Rightarrow> jsval db) \<Rightarrow> jsval db \<Rightarrow> doc_id \<Rightarrow> (error + outcome) \<times> jsval db" where
  "assignDriverForBooking e interfere d bookingId =
     (case selectVehicle d bookingId of
        Inl err \<Rightarrow> (Inl err, d)
      | Inr NotPending \<Rightarrow> (Inr Skipped, d)
      | Inr NoCandidates \<Rightarrow> (Inr NoVehicle, d)
      | Inr (Chosen chosen) \<Rightarrow>
          (case runTransaction (assignTransaction e bookingId chosen) (interfere d) of
             (Inl err, d') \<Rightarrow> (Inl err, d')
           | (Inr u, d') \<Rightarrow> (Inr (Assigned (cid chosen) (pushMessage d bookingId chosen)), d')))"

section \<open>The planner's distance function\<close>

text \<open>
  The planner's module binds the name \<open>haversineDistanceKm\<close> by destructuring what the
  matcher's module exports, and that module exports the one name
  \<open>assignDriverForBooking\<close>. So the name is bound to \<open>undefined\<close>, and every call of it
  in the planner, whatever its arguments, throws a \<open>TypeError\<close>.
\<close>

definition imported_haversineDistanceKm :: "'a \<Rightarrow> 'a \<Rightarrow> 'b \<Rightarrow> 'b \<Rightarrow> error + jsnum" where
  "imported_haversineDistanceKm lat1 lon1 lat2 lon2 = Inl TypeError"

section \<open>Demand clusterer\<close>

text \<open>
  In a condition, a coordinate counts as missing when it is falsy: absent, or the number 0.
\<close>

definition truthy :: "real option \<Rightarrow> real option" where
  "truthy c = (case c of None \<Rightarrow> None | Some x \<Rightarrow> if x = 0 then None else Some x)"

record hotspot =
  hlocation :: "real latlng"
  count :: nat

text \<open>
  \<open>x.toFixed(4)\<close>: the sign, then the nearest multiple of \<open>1/10000\<close> (the larger one
  of two equally near), printed with four decimals. The number rounded is the real that
  the double denotes.
\<close>

definition pad4 :: "string \<Rightarrow> string" where
  "pad4 s = replicate (4 - length s) (CHR ''0'') @ s"

definition toFixed4 :: "real \<Rightarrow> string" where
  "toFixed4 x =
     (let n = nat \<lfloor>\<bar>x\<bar> * 10000 + 1 / 2\<rfloor>
      in (if x < 0 then ''-'' else [])
         @ show_nat (n div 10000) @ ''.'' @ pad4 (show_nat (n mod 10000)))"

definition hotspot_key :: "real \<Rightarrow> real \<Rightarrow> string" where
  "hotspot_key la lo = toFixed4 la @ '','' @ toFixed4 lo"

text \<open>
  The object \<open>hotspots\<close>: its entries in insertion order, which is the order of
  \<open>for ... in\<close> and of \<open>Object.values\<close>. Assigning to a key that exists replaces the
  value in place.
\<close>

type_synonym hotspots = "(string \<times> hotspot) list"

fun object_set :: "string \<Rightarrow> hotspot \<Rightarrow> hotspots \<Rightarrow> hotspots" where
  "object_set k h [] = [(k, h)]"
| "object_set k h ((k', h') # rest) =
     (if k' = k then (k', h) # rest else (k', h') # object_set k h rest)"

text \<open>
  The inner loop over the hotspots there are: the first one within 0.5 km gets one more;
  \<open>None\<close> when the loop ends with \<open>foundMatch\<close> still false. With no hotspot yet the
  loop body, and so the distance function, is not reached.
\<close>

fun increment_match :: "real \<Rightarrow> real \<Rightarrow> hotspots \<Rightarrow> error + hotspots option" where
  "increment_match la lo [] = Inr None"
| "increment_match la lo ((k, h) # rest) =
     (case imported_haversineDistanceKm (lat (hlocation h)) (lng (hlocation h)) la lo of
        Inl err \<Rightarrow> Inl err
      | Inr distance \<Rightarrow>
          if js_lt distance (Fin 0.5)
          then Inr (Some ((k, h\<lparr>count := count h + 1\<rparr>) # rest))
          else (case increment_match la lo rest of
                  Inl err \<Rightarrow> Inl err
                | Inr r \<Rightarrow> Inr (map_option (\<lambda>r. (k, h) # r) r)))"

text \<open>The callback of \<open>recentBookings.forEach\<close>.\<close>

definition add_pickup :: "hotspots \<Rightarrow> real option booking \<Rightarrow> error + hotspots" where
  "add_pickup hs b =
     (case pickup b of
        None \<Rightarrow> Inr hs
      | Some p \<Rightarrow>
          (case truthy (lat p) of
             None \<Rightarrow> Inr hs
           | Some la \<Rightarrow>
               (case truthy (lng p) of
                  None \<Rightarrow> Inr hs
                | Some lo \<Rightarrow>
                    (case increment_match la lo hs of
                       Inl err \<Rightarrow> Inl err
                     | Inr (Some hs') \<Rightarrow> Inr hs'
                     | Inr None \<Rightarrow>
                         Inr (object_set (hotspot_key la lo)
                                \<lparr>hlocation = \<lparr>lat = la, lng = lo\<rparr>, count = 1\<rparr> hs)))))"

text \<open>\<open>forEach\<close>: an exception in the callback ends the loop and leaves the function.\<close>

fun add_pickups :: "hotspots \<Rightarrow> real option booking list \<Rightarrow> error + hotspots" where
  "add_pickups hs [] = Inr hs"
| "add_pickups hs (b # bs) =
     (case add_pickup hs b of
        Inl err \<Rightarrow> Inl err
      | Inr hs' \<Rightarrow> add_pickups hs' bs)"

definition identifyHotspots :: "real option booking list \<Rightarrow> error + hotspot list" where
  "identifyHotspots recentBookings =
     (case add_pickups [] recentBookings of
        Inl err \<Rightarrow> Inl err
      | Inr hs \<Rightarrow> Inr (array_sort (\<lambda>a b. Fin (real (count b) - real (count a))) (map snd hs)))"

section \<open>Rebalance planner\<close>

record suggestion =
  vehicleId :: doc_id
  currentLocation :: "real option latlng"
  sugTargetLocation :: "real latlng"
  priority :: jsnum
  distance :: jsnum
  reason :: string

text \<open>The condition of \<open>getIdleVehicles\<close>: no passenger list, or an empty one.\<close>

definition no_passengers :: "vehicle \<Rightarrow> bool" where
  "no_passengers v = (case currentPassengers v of None \<Rightarrow> True | Some ps \<Rightarrow> ps = [])"

definition getIdleVehicles :: "'c db \<Rightarrow> (doc_id \<times> vehicle) list" where
  "getIdleVehicles d =
     filter (\<lambda>doc. no_passengers (snd doc))
       (filter (\<lambda>doc. vehicleStatus (snd doc) = ''idle'') (vehicles d))"

text \<open>
  The bookings created in the last \<open>hours\<close> hours before \<open>now\<close> (milliseconds), newest
  first; a booking with no creation time is not in the query's result.
\<close>

definition created_ms :: "doc_id \<times> 'c booking \<Rightarrow> nat" where
  "created_ms doc = (case createdAt (snd doc) of None \<Rightarrow> 0 | Some t \<Rightarrow> t)"

definition getRecentBookings :: "'c db \<Rightarrow> nat \<Rightarrow> nat \<Rightarrow> (doc_id \<times> 'c booking) list" where
  "getRecentBookings d now hours =
     rev (sort_key created_ms
       (filter (\<lambda>doc. case createdAt (snd doc) of
                         None \<Rightarrow> False
                       | Some t \<Rightarrow> now - hours * 3600000 \<le> t) (bookings d)))"

text \<open>\<open>Math.round\<close>: the nearest integer, a half going up.\<close>

definition js_round :: "real \<Rightarrow> int" where
  "js_round x = \<lfloor>x + 1 / 2\<rfloor>"

text \<open>
  \<open>Math.min(10, Math.round((count * 5) / Math.max(1, distance)))\<close>. An infinite distance
  makes the quotient 0, a negative infinite one leaves the divisor 1, and NaN stays NaN.
\<close>

definition priority_of :: "nat \<Rightarrow> jsnum \<Rightarrow> jsnum" where
  "priority_of n distanceKm =
     (case distanceKm of
        Fin x \<Rightarrow> Fin (min 10 (real_of_int (js_round ((real n * 5) / max 1 x))))
      | PInf \<Rightarrow> Fin 0
      | NInf \<Rightarrow> Fin (min 10 (real_of_int (js_round (real n * 5))))
      | NaN \<Rightarrow> NaN)"

text \<open>
  \<open>idleVehicles.some(...)\<close> for the vehicle \<open>vid\<close> and one hotspot. The callback returns
  false for the vehicle itself and for a vehicle with no location; for any other vehicle
  it calls the distance function.
\<close>

fun anotherVehicleNearby :: "(doc_id \<times> vehicle) list \<Rightarrow> doc_id \<Rightarrow> hotspot \<Rightarrow> error + bool" where
  "anotherVehicleNearby [] vid h = Inr False"
| "anotherVehicleNearby (doc # rest) vid h =
     (if fst doc = vid then anotherVehicleNearby rest vid h
      else case location (snd doc) of
             None \<Rightarrow> anotherVehicleNearby rest vid h
           | Some l \<Rightarrow>
               (case imported_haversineDistanceKm (lat l) (lng l)
                       (lat (hlocation h)) (lng (hlocation h)) of
                  Inl err \<Rightarrow> Inl err
                | Inr distanceToHotspot \<Rightarrow>
                    if js_lt distanceToHotspot (Fin 1) then Inr True
                    else anotherVehicleNearby rest vid h))"

text \<open>The loop over the hotspots for one vehicle, up to its \<open>break\<close>.\<close>

fun suggest_from ::
  "(doc_id \<times> vehicle) list \<Rightarrow> doc_id \<Rightarrow> real option latlng \<Rightarrow> hotspot list
    \<Rightarrow> error + suggestion option" where
  "suggest_from idleVehicles vid loc [] = Inr None"
| "suggest_from idleVehicles vid loc (h # hs) =
     (case anotherVehicleNearby idleVehicles vid h of
        Inl err \<Rightarrow> Inl err
      | Inr True \<Rightarrow> suggest_from idleVehicles vid loc hs
      | Inr False \<Rightarrow>
          (case imported_haversineDistanceKm (lat loc) (lng loc)
                  (lat (hlocation h)) (lng (hlocation h)) of
             Inl err \<Rightarrow> Inl err
           | Inr distanceKm \<Rightarrow>
               if js_lt (Fin 0.5) distanceKm
               then Inr (Some \<lparr>vehicleId = vid,
                               currentLocation = loc,
                               sugTargetLocation = hlocation h,
                               priority = priority_of (count h) distanceKm,
                               distance = distanceKm,
                               reason = ''High demand area with '' @ show_nat (count h)
                                          @ '' recent bookings''\<rparr>)
               else suggest_from idleVehicles vid loc hs))"

text \<open>The callback of \<open>idleVehicles.forEach\<close>: \<open>None\<close> when it pushes nothing.\<close>

definition suggest_for ::
  "(doc_id \<times> vehicle) list \<Rightarrow> hotspot list \<Rightarrow> doc_id \<times> vehicle \<Rightarrow> error + suggestion option" where
  "suggest_for idleVehicles hs doc =
     (case location (snd doc) of
        None \<Rightarrow> Inr None
      | Some l \<Rightarrow>
          (case truthy (lat l) of
             None \<Rightarrow> Inr None
           | Some vlat \<Rightarrow>
               (case truthy (lng l) of
                  None \<Rightarrow> Inr None
                | Some vlng \<Rightarrow> suggest_from idleVehicles (fst doc) l hs)))"

fun collect_suggestions ::
  "(doc_id \<times> vehicle) list \<Rightarrow> hotspot list \<Rightarrow> (doc_id \<times> vehicle) list
    \<Rightarrow> error + suggestion list" where
  "collect_suggestions idleVehicles hs [] = Inr []"
| "collect_suggestions idleVehicles hs (doc # rest) =
     (case suggest_for idleVehicles hs doc of
        Inl err \<Rightarrow> Inl err
      | Inr s \<Rightarrow>
          (case collect_suggestions idleVehicles hs rest of
             Inl err \<Rightarrow> Inl err
           | Inr ss \<Rightarrow> Inr (case s of None \<Rightarrow> ss | Some x \<Rightarrow> x # ss)))"

definition generateRebalanceSuggestions :: "real option db \<Rightarrow> nat \<Rightarrow> error + suggestion list" where
  "generateRebalanceSuggestions d now =
     (let idleVehicles = getIdleVehicles d;
          recentBookings = getRecentBookings d now 1
      in if idleVehicles = [] \<or> recentBookings = [] then Inr []
         else
           case identifyHotspots (map snd recentBookings) of
             Inl err \<Rightarrow> Inl err
           | Inr hs \<Rightarrow>
               (case collect_suggestions idleVehicles hs idleVehicles of
                  Inl err \<Rightarrow> Inl err
                | Inr suggestions \<Rightarrow>
                    Inr (array_sort (\<lambda>a b. js_sub (priority b) (priority a)) suggestions)))"

text \<open>\<open>vehicleRef.update(...)\<close> fails when the document does not exist.\<close>

definition applyRebalanceSuggestion :: "nat \<Rightarrow> 'c db \<Rightarrow> suggestion \<Rightarrow> error + 'c db" where
  "applyRebalanceSuggestion now d s =
     (case get_doc (vehicles d) (vehicleId s) of
        None \<Rightarrow> Inl DocumentNotFound
      | Some v \<Rightarrow>
          Inr (d\<lparr>vehicles := update_doc (vehicleId s)
                 (\<lambda>v. v\<lparr>targetLocation := Some (sugTargetLocation s),
                         rebalanceReason := Some (reason s),
                         rebalanceTimestamp := Some now\<rparr>) (vehicles d)\<rparr>))"

text \<open>
  The \<open>for ... of\<close> loop with \<open>await\<close>: the first failure ends it, and what was written
  before stays written.
\<close>

fun apply_each :: "nat \<Rightarrow> 'c db \<Rightarrow> suggestion list \<Rightarrow> (error + unit) \<times> 'c db" where
  "apply_each now d [] = (Inr (), d)"
| "apply_each now d (s # ss) =
     (case applyRebalanceSuggestion now d s of
        Inl err \<Rightarrow> (Inl err, d)
      | Inr d' \<Rightarrow> apply_each now d' ss)"

text \<open>
  \<open>runRebalancer\<close>: what the call returns or throws, and the store it leaves. The value
  returned is the list \<open>suggestions\<close>; the number of suggestions applied is part of a
  log line only.
\<close>

definition runRebalancer ::
  "nat \<Rightarrow> bool \<Rightarrow> real option db \<Rightarrow> (error + suggestion list) \<times> real option db" where
  "runRebalancer now autoApply d =
     (case generateRebalanceSuggestions d now of
        Inl err \<Rightarrow> (Inl err, d)
      | Inr suggestions \<Rightarrow>
          if autoApply \<and> suggestions \<noteq> []
          then
            let topSuggestions = take 3 suggestions in
            (case apply_each now d topSuggestions of
               (Inl err, d') \<Rightarrow> (Inl err, d')
             | (Inr u, d') \<Rightarrow> (Inr suggestions, d'))
          else (Inr suggestions, d))"

section \<open>Notions used in the properties\<close>




text \<open>The capacity invariant of the fleet.\<close>

definition capacity_ok :: "'c db \<Rightarrow> bool" where
  "capacity_ok d = (\<forall>doc\<in>set (vehicles d). length (passengers_of (snd doc)) \<le> 7)"

section \<open>Example data\<close>

definition booking0 :: "jsval booking" where
  "booking0 = \<lparr>status = ''pending'',
     pickup = Some \<lparr>lat = JNum (Fin 0), lng = JNum (Fin 0.01)\<rparr>,
     number = Some ''5551234567'', createdAt = Some 1000,
     assignedVehicleId = None, assignedDriverId = None,
     verificationCode = None, assignedAt = None\<rparr>"

definition vehicle0 :: vehicle where
  "vehicle0 = \<lparr>vehicleStatus = ''idle'',
     location = Some \<lparr>lat = Some 0, lng = Some 0\<rparr>,
     currentPassengers = Some [], driverId = Some ''driver1'', fcmToken = None,
     targetLocation = None, rebalanceReason = None, rebalanceTimestamp = None\<rparr>"

definition db0 :: "jsval db" where
  "db0 = \<lparr>bookings = [(''b1'', booking0)], vehicles = [(''v1'', vehicle0)]\<rparr>"

definition env0 :: env where
  "env0 = \<lparr>randomCode = 4321, serverTimestamp = 2000\<rparr>"

definition assigned0 :: "jsval booking" where
  "assigned0 = booking0\<lparr>assignedVehicleId := Some ''v1'',
                 assignedDriverId := Some ''driver1'',
                 status := ''assigned'',
                 verificationCode := Some ''4567'',
                 assignedAt := Some 2000\<rparr>"

definition db1 :: "jsval db" where
  "db1 = \<lparr>bookings = [(''b1'', assigned0)],
           vehicles = [(''v1'', vehicle0\<lparr>currentPassengers := Some [''b1'']\<rparr>)]\<rparr>"

text \<open>Another client deletes every vehicle.\<close>

definition vanish :: "jsval db \<Rightarrow> jsval db" where
  "vanish d = d\<lparr>vehicles := []\<rparr>"

text \<open>A full vehicle in front of a free one.\<close>

definition full_vehicle :: vehicle where
  "full_vehicle = vehicle0\<lparr>currentPassengers :=
     Some [''p1'', ''p2'', ''p3'', ''p4'', ''p5'', ''p6'', ''p7'']\<rparr>"

definition db_full :: "jsval db" where
  "db_full = \<lparr>bookings = [(''b1'', booking0)],
               vehicles = [(''v7'', full_vehicle), (''v1'', vehicle0)]\<rparr>"

definition db_full1 :: "jsval db" where
  "db_full1 = \<lparr>bookings = [(''b1'', assigned0)],
                vehicles = [(''v7'', full_vehicle),
                            (''v1'', vehicle0\<lparr>currentPassengers := Some [''b1'']\<rparr>)]\<rparr>"

text \<open>The store \<open>db0\<close> with another latitude in the booking's pickup.\<close>

definition with_lat :: "jsval \<Rightarrow> jsval db" where
  "with_lat v = \<lparr>bookings = [(''b1'', booking0\<lparr>pickup := Some \<lparr>lat = v, lng = JNum (Fin 0.01)\<rparr>\<rparr>)],
                  vehicles = [(''v1'', vehicle0)]\<rparr>"

text \<open>Candidates by id, distance and number of passengers.\<close>

definition cand :: "doc_id \<Rightarrow> real \<Rightarrow> nat \<Rightarrow> candidate" where
  "cand i x n = \<lparr>cid = i, cdriverId = None, dist = Fin x, passengerCount = n, cfcmToken = None\<rparr>"

definition cA :: candidate where "cA = cand ''a'' 10 3"

definition cB :: candidate where "cB = cand ''b'' 10.0008 2"

definition cC :: candidate where "cC = cand ''c'' 10.0016 1"

definition cD :: candidate where "cD = cand ''d'' 10 1"

definition cE :: candidate where "cE = cand ''e'' 10.0008 1"

definition cF :: candidate where "cF = cand ''f'' 10.0016 1"

definition cP :: candidate where "cP = cand ''p'' 10.0005 2"

definition cQ :: candidate where "cQ = cand ''q'' 10.0008 0"

text \<open>
  Two idle vehicles at the north pole, the first with a passenger, and one recent pickup
  at the south pole.
\<close>

definition polar_vehicle :: "doc_id list \<Rightarrow> real \<Rightarrow> vehicle" where
  "polar_vehicle ps lo = \<lparr>vehicleStatus = ''idle'',
     location = Some \<lparr>lat = Some 90, lng = Some lo\<rparr>,
     currentPassengers = Some ps, driverId = None, fcmToken = None,
     targetLocation = None, rebalanceReason = None, rebalanceTimestamp = None\<rparr>"

definition polar_booking :: "real option booking" where
  "polar_booking = \<lparr>status = ''assigned'',
     pickup = Some \<lparr>lat = Some (- 90), lng = Some 10\<rparr>,
     number = None, createdAt = Some 5000000,
     assignedVehicleId = None, assignedDriverId = None,
     verificationCode = None, assignedAt = None\<rparr>"

definition polar_db :: "real option db" where
  "polar_db = \<lparr>bookings = [(''b1'', polar_booking)],
                vehicles = [(''v1'', polar_vehicle [''b9''] 10), (''v2'', polar_vehicle [] 20)]\<rparr>"

text \<open>
  One recent pickup at the north pole and five idle vehicles with no passenger list, at
  latitudes 10 to 50 on the meridian of the pickup.
\<close>

definition north_booking :: "real option booking" where
  "north_booking = \<lparr>status = ''assigned'',
     pickup = Some \<lparr>lat = Some 90, lng = Some 10\<rparr>,
     number = None, createdAt = Some 5000000,
     assignedVehicleId = None, assignedDriverId = None,
     verificationCode = None, assignedAt = None\<rparr>"

definition fleet_vehicle :: "real \<Rightarrow> real \<Rightarrow> vehicle" where
  "fleet_vehicle la lo = \<lparr>vehicleStatus = ''idle'',
     location = Some \<lparr>lat = Some la, lng = Some lo\<rparr>,
     currentPassengers = None, driverId = None, fcmToken = None,
     targetLocation = None, rebalanceReason = None, rebalanceTimestamp = None\<rparr>"

definition fleet_db :: "real option db" where
  "fleet_db = \<lparr>bookings = [(''b1'', north_booking)],
                vehicles = [(''v1'', fleet_vehicle 10 10), (''v2'', fleet_vehicle 20 10),
                            (''v3'', fleet_vehicle 30 10), (''v4'', fleet_vehicle 40 10),
                            (''v5'', fleet_vehicle 50 10)]\<rparr>"

text \<open>A pickup on the Greenwich meridian.\<close>

definition greenwich_booking :: "real option booking" where
  "greenwich_booking = north_booking\<lparr>pickup := Some \<lparr>lat = Some 51.4779, lng = Some 0\<rparr>\<rparr>"

section \<open>Facts about the store and the sort\<close>

lemma get_doc_update_doc:
  "get_doc (update_doc i f col) j = (if j = i then map_option f (get_doc col j) else get_doc col j)"
  by (induction col) (auto simp: get_doc_def update_doc_def)

lemma extend_run_append: "extend_run cmp desc prev xs = (run, rest) \<Longrightarrow> xs = run @ rest"
  by (induction xs arbitrary: prev run rest) (auto split: if_splits prod.splits)

lemma count_and_make_run_set:
  assumes a: "count_and_make_run cmp xs = (run, rest)"
  shows "set run \<union> set rest = set xs"
proof (cases xs)
  case Nil
  with a show ?thesis by auto
next
  case (Cons x0 ys)
  show ?thesis
  proof (cases ys)
    case Nil
    with a Cons show ?thesis by auto
  next
    case c: (Cons x1 zs)
    obtain r rs where e: "extend_run cmp (sort_lt cmp x1 x0) x1 zs = (r, rs)" by force
    from extend_run_append [OF e] have "zs = r @ rs" .
    with a Cons c e show ?thesis by (auto simp: Let_def split: if_splits)
  qed
qed

lemma set_binary_insert: "set (binary_insert cmp pivot xs) = insert pivot (set xs)"
proof (induction cmp pivot xs rule: binary_insert.induct)
  case (1 cmp pivot xs)
  show ?case
  proof (cases "xs = []")
    case True
    then show ?thesis by (simp add: binary_insert.simps)
  next
    case False
    let ?mid = "length xs div 2"
    have s1: "set (take ?mid xs) \<union> set (drop ?mid xs) = set xs"
      by (metis append_take_drop_id set_append)
    have s2: "set (take (?mid + 1) xs) \<union> set (drop (?mid + 1) xs) = set xs"
      by (metis append_take_drop_id set_append)
    show ?thesis
    proof (cases "sort_lt cmp pivot (xs ! ?mid)")
      case True
      with False 1(1) [OF False refl True] s1 show ?thesis
        by (subst binary_insert.simps) (auto simp: Let_def)
    next
      case f: False
      with False 1(2) [OF False refl f] s2 show ?thesis
        by (subst binary_insert.simps) (auto simp: Let_def)
    qed
  qed
qed

lemma set_foldl_binary_insert:
  "set (foldl (\<lambda>sorted pivot. binary_insert cmp pivot sorted) run rest) = set run \<union> set rest"
  by (induction rest arbitrary: run) (auto simp: set_binary_insert)

lemma set_array_sort: "set (array_sort cmp xs) = set xs"
proof -
  obtain run rest where c: "count_and_make_run cmp xs = (run, rest)" by force
  with count_and_make_run_set [OF c] show ?thesis
    by (simp add: array_sort_def set_foldl_binary_insert)
qed










section \<open>The matcher's selection\<close>

lemma chooseCandidate_mem: "chooseCandidate cs = Some c \<Longrightarrow> c \<in> set cs"
proof -
  assume "chooseCandidate cs = Some c"
  then have "c \<in> set (array_sort compareCandidates cs)"
    by (auto simp: chooseCandidate_def split: list.splits)
  then show ?thesis by (simp add: set_array_sort)
qed

lemma scanCandidates_mem:
  assumes "c \<in> set (scanCandidates plat plng d)"
  shows "\<exists>v. (cid c, v) \<in> set (vehicles d) \<and> vehicleStatus v = ''idle''
             \<and> length (passengers_of v) < 7 \<and> passengerCount c = length (passengers_of v)"
proof -
  from assms obtain doc where doc: "doc \<in> set (idle_vehicles d)"
      and c: "candidate_of plat plng doc = Some c"
    by (auto simp: scanCandidates_def List.map_filter_def)
  from doc have "(fst doc, snd doc) \<in> set (vehicles d)" "vehicleStatus (snd doc) = ''idle''"
    by (auto simp: idle_vehicles_def)
  moreover from c have "cid c = fst doc" "length (passengers_of (snd doc)) < 7"
      "passengerCount c = length (passengers_of (snd doc))"
    by (auto simp: candidate_of_def Let_def split: if_splits option.splits)
  ultimately show ?thesis by (intro exI [of _ "snd doc"]) simp
qed

lemma selectVehicle_Chosen:
  assumes "selectVehicle d bookingId = Inr (Chosen c)"
  shows "\<exists>plat plng. c \<in> set (scanCandidates plat plng d)"
  using assms
  by (auto simp: selectVehicle_def Let_def split: option.splits if_splits dest: chooseCandidate_mem)

lemma selectVehicle_not_pending:
  "get_doc (bookings d) bookingId = Some b \<Longrightarrow> status b \<noteq> ''pending'' \<Longrightarrow>
   selectVehicle d bookingId = Inr NotPending"
  by (simp add: selectVehicle_def)

lemma runTransaction_assign_ok:
  assumes "runTransaction (assignTransaction e bookingId chosen) d1 = (Inr u, d')"
  shows "\<exists>b. get_doc (bookings d') bookingId = Some b \<and> status b = ''assigned''"
  using assms
  by (auto simp: runTransaction_def assignTransaction_def get_doc_update_doc Let_def
           split: option.splits if_splits sum.splits)

lemmas parse_defs = parseFloat_str_def to_number_def strip_sign_def is_space_def is_digit_def is_sign_def
  digits_val_def digit_val_def exponent_part_def pow10_def

lemmas assign_defs = assignDriverForBooking_def selectVehicle_def get_doc_def
  chooseCandidate_def scanCandidates_def idle_vehicles_def List.map_filter_def candidate_of_def
  passengers_of_def or_null_def array_sort_def runTransaction_def assignTransaction_def
  update_doc_def phone_of_def slice_last4_def pushMessage_def

lemmas example_defs = db0_def db1_def booking0_def assigned0_def vehicle0_def env0_def
  full_vehicle_def db_full_def db_full1_def with_lat_def

lemma select_db0:
  "selectVehicle db0 ''b1'' = Inr (Chosen \<lparr>cid = ''v1'', cdriverId = Some ''driver1'',
      dist = haversineDistanceKm 0 0 0 (1 / 100), passengerCount = 0, cfcmToken = None\<rparr>)"
  by (simp add: assign_defs example_defs)

lemma assign_db0:
  "assignDriverForBooking env0 id db0 ''b1'' = (Inr (Assigned ''v1'' None), db1)"
  by (simp add: assign_defs example_defs)

lemma assign_db_full:
  "assignDriverForBooking env0 id db_full ''b1'' = (Inr (Assigned ''v1'' None), db_full1)"
  by (simp add: assign_defs example_defs)

section \<open>The ranking of the candidates\<close>





lemmas cand_defs = cA_def cB_def cC_def cD_def cE_def cF_def cP_def cQ_def cand_def

text \<open>The choice among the candidates \<open>a\<close>, \<open>b\<close>, \<open>c\<close> in each of their six orders.\<close>

lemma chooseCandidate_six_orders:
  "map chooseCandidate [[cA, cB, cC], [cA, cC, cB], [cB, cA, cC], [cB, cC, cA], [cC, cA, cB], [cC, cB, cA]]
   = map Some [cC, cA, cB, cA, cB, cC]"
  by (simp add: chooseCandidate_def array_sort_def sort_lt_def compareCandidates_def cand_defs)

section \<open>Claims about the matcher\<close>

text \<open>
  Claim C1. When the transaction's re-check fails on the store as it is at transaction
  time (the booking is gone or no longer pending, or the chosen vehicle is gone or carries
  seven or more), the call throws one of the four errors of the transaction and the store
  is left exactly as the transaction found it: no field of the booking or of the vehicle
  is written.
\<close>

theorem assign_recheck_failure_aborts:
  assumes sel: "selectVehicle d bookingId = Inr (Chosen chosen)"
    and fails: "get_doc (bookings (interfere d)) bookingId = None
       \<or> (\<exists>b. get_doc (bookings (interfere d)) bookingId = Some b \<and> status b \<noteq> ''pending'')
       \<or> get_doc (vehicles (interfere d)) (cid chosen) = None
       \<or> (\<exists>v. get_doc (vehicles (interfere d)) (cid chosen) = Some v
              \<and> 7 \<le> length (passengers_of v))"
  shows "\<exists>err. assignDriverForBooking e interfere d bookingId = (Inl err, interfere d)
          \<and> err \<in> {BookingDisappeared, BookingAlreadyHandled, VehicleDisappeared, VehicleFull}"
proof -
  from fails have "\<exists>err. assignTransaction e bookingId chosen (interfere d) = Inl err
      \<and> err \<in> {BookingDisappeared, BookingAlreadyHandled, VehicleDisappeared, VehicleFull}"
    by (auto simp: assignTransaction_def Let_def split: option.splits)
  then show ?thesis
    using sel by (auto simp: assignDriverForBooking_def runTransaction_def)
qed

theorem assign_recheck_failure_aborts_witness:
  "get_doc (vehicles (vanish db0)) ''v1'' = None
   \<and> assignDriverForBooking env0 vanish db0 ''b1'' = (Inl VehicleDisappeared, vanish db0)"
proof -
  have gone: "get_doc (vehicles (vanish db0)) ''v1'' = None"
    by (simp add: vanish_def get_doc_def)
  have "assignTransaction env0 ''b1'' c (vanish db0) = Inl VehicleDisappeared" if "cid c = ''v1''" for c
    using that by (simp add: assignTransaction_def vanish_def get_doc_def example_defs)
  then have "assignDriverForBooking env0 vanish db0 ''b1'' = (Inl VehicleDisappeared, vanish db0)"
    using assign_recheck_failure_aborts [OF select_db0, of vanish env0] gone
    by (simp add: assignDriverForBooking_def runTransaction_def select_db0)
  with gone show ?thesis by simp
qed




text \<open>
  Claim C3. A vehicle chosen by the scan is idle and carries fewer than seven in the
  snapshot; the vehicle the transaction appends to carries fewer than seven at transaction
  time, gets exactly the booking id appended, and no other vehicle changes. So a fleet
  within capacity (before the call and at transaction time) is within capacity afterwards.
\<close>

theorem assign_respects_capacity:
  assumes run: "assignDriverForBooking e interfere d bookingId = (r, d')"
  shows "(capacity_ok d \<and> capacity_ok (interfere d) \<longrightarrow> capacity_ok d')
    \<and> (\<forall>vid msg. r = Inr (Assigned vid msg) \<longrightarrow>
         (\<exists>v. (vid, v) \<in> set (vehicles d) \<and> vehicleStatus v = ''idle''
              \<and> length (passengers_of v) < 7)
       \<and> (\<exists>v. get_doc (vehicles (interfere d)) vid = Some v
              \<and> length (passengers_of v) < 7
              \<and> get_doc (vehicles d') vid
                  = Some (v\<lparr>currentPassengers := Some (passengers_of v @ [bookingId])\<rparr>))
       \<and> (\<forall>j. j \<noteq> vid \<longrightarrow> get_doc (vehicles d') j = get_doc (vehicles (interfere d)) j))"
proof (cases "selectVehicle d bookingId")
  case (Inl err)
  with run show ?thesis by (auto simp: assignDriverForBooking_def)
next
  case (Inr s)
  show ?thesis
  proof (cases s)
    case NotPending
    with Inr run show ?thesis by (auto simp: assignDriverForBooking_def)
  next
    case NoCandidates
    with Inr run show ?thesis by (auto simp: assignDriverForBooking_def)
  next
    case (Chosen c)
    with Inr have sel: "selectVehicle d bookingId = Inr (Chosen c)" by simp
    from selectVehicle_Chosen [OF sel] scanCandidates_mem
    obtain v0 where v0: "(cid c, v0) \<in> set (vehicles d)" "vehicleStatus v0 = ''idle''"
        "length (passengers_of v0) < 7" by blast
    show ?thesis
    proof (cases "assignTransaction e bookingId c (interfere d)")
      case (Inl err)
      with sel run have "r = Inl err" "d' = interfere d"
        by (auto simp: assignDriverForBooking_def runTransaction_def)
      then show ?thesis by simp
    next
      case (Inr ws)
      then obtain code vData where
        v: "get_doc (vehicles (interfere d)) (cid c) = Some vData"
           "length (passengers_of vData) < 7"
        and ws: "ws = [BookingWrite bookingId (cid c) (or_null (cdriverId c))
                  code (serverTimestamp e),
                 VehicleWrite (cid c) (passengers_of vData @ [bookingId])]"
        by (auto simp: assignTransaction_def Let_def split: option.splits if_splits)
      from Inr sel run have r: "r = Inr (Assigned (cid c) (pushMessage d bookingId c))"
        and d': "d' = foldl (\<lambda>acc w. apply_write w acc) (interfere d) ws"
        by (auto simp: assignDriverForBooking_def runTransaction_def)
      have cap: "capacity_ok (interfere d) \<Longrightarrow> capacity_ok d'"
        unfolding d' ws using v(2)
        by (simp add: capacity_ok_def update_doc_def passengers_of_def) auto
      have upd: "get_doc (vehicles d') j =
          (if j = cid c
           then Some (vData\<lparr>currentPassengers := Some (passengers_of vData @ [bookingId])\<rparr>)
           else get_doc (vehicles (interfere d)) j)" for j
        unfolding d' ws using v(1) by (simp add: get_doc_update_doc)
      show ?thesis using r cap upd v v0 by auto
    qed
  qed
qed

theorem assign_respects_capacity_witness:
  "assignDriverForBooking env0 id db_full ''b1'' = (Inr (Assigned ''v1'' None), db_full1)
   \<and> length (passengers_of full_vehicle) = 7
   \<and> capacity_ok db_full \<and> capacity_ok db_full1
   \<and> get_doc (vehicles db_full1) ''v7'' = Some full_vehicle"
proof -
  have cap: "length (passengers_of full_vehicle) = 7 \<and> capacity_ok db_full \<and> capacity_ok db_full1
      \<and> get_doc (vehicles db_full1) ''v7'' = Some full_vehicle"
    by (simp add: capacity_ok_def passengers_of_def get_doc_def example_defs)
  from assign_respects_capacity [OF assign_db_full] assign_db_full cap
  show ?thesis by blast
qed

text \<open>
  The guard on the pickup coordinates. For a pending booking whose two coordinates are
  present, the call throws the invalid-coordinates error, with the store untouched, when
  \<open>parseFloat\<close> of a coordinate is NaN; otherwise it goes on to scan the vehicles with
  the two parsed numbers and never throws that error.
\<close>

lemma pickup_guard:
  assumes "get_doc (bookings d) bookingId = Some b" and "status b = ''pending''"
    and "pickup b = Some p" and "lat p \<noteq> JNull" and "lng p \<noteq> JNull"
  shows "(isNaN (parseFloat (lat p)) \<or> isNaN (parseFloat (lng p))
            \<longrightarrow> assignDriverForBooking e interfere d bookingId = (Inl InvalidPickup, d))
       \<and> (\<not> isNaN (parseFloat (lat p)) \<and> \<not> isNaN (parseFloat (lng p))
            \<longrightarrow> selectVehicle d bookingId =
                  (case chooseCandidate
                          (scanCandidates (parseFloat (lat p)) (parseFloat (lng p)) d) of
                     None \<Rightarrow> Inr NoCandidates | Some chosen \<Rightarrow> Inr (Chosen chosen))
              \<and> fst (assignDriverForBooking e interfere d bookingId) \<noteq> Inl InvalidPickup)"
proof (intro conjI impI)
  assume "isNaN (parseFloat (lat p)) \<or> isNaN (parseFloat (lng p))"
  with assms have "selectVehicle d bookingId = Inl InvalidPickup"
    by (auto simp: selectVehicle_def)
  then show "assignDriverForBooking e interfere d bookingId = (Inl InvalidPickup, d)"
    by (simp add: assignDriverForBooking_def)
next
  assume ok: "\<not> isNaN (parseFloat (lat p)) \<and> \<not> isNaN (parseFloat (lng p))"
  with assms show sel: "selectVehicle d bookingId =
      (case chooseCandidate (scanCandidates (parseFloat (lat p)) (parseFloat (lng p)) d) of
         None \<Rightarrow> Inr NoCandidates | Some chosen \<Rightarrow> Inr (Chosen chosen))"
    by (simp add: selectVehicle_def)
  show "fst (assignDriverForBooking e interfere d bookingId) \<noteq> Inl InvalidPickup"
    unfolding assignDriverForBooking_def sel
    by (auto simp: runTransaction_def assignTransaction_def Let_def
        split: option.splits sum.splits if_splits)
qed

lemma pickup_guard_examples:
  "parseFloat (JStr ''abc'') = NaN
   \<and> assignDriverForBooking env0 id (with_lat (JStr ''abc'')) ''b1''
       = (Inl InvalidPickup, with_lat (JStr ''abc''))
   \<and> parseFloat (JStr ''12.5'') = Fin 12.5
   \<and> fst (assignDriverForBooking env0 id (with_lat (JStr ''12.5'')) ''b1'') \<noteq> Inl InvalidPickup"
  using pickup_guard [of "with_lat (JStr ''abc'')" "''b1''" _ _ env0 id]
    pickup_guard [of "with_lat (JStr ''12.5'')" "''b1''" _ _ env0 id]
  by (simp add: with_lat_def booking0_def get_doc_def parse_defs)

text \<open>
  Claim C7, at an input where the code departs from it. The latitude \<open>Infinity\<close> is
  present and does not parse as a finite number, so the call should throw the
  invalid-coordinates error. The guard is \<open>isNaN\<close>: the booking passes it, every distance
  is NaN, and the booking is assigned to the first idle vehicle with a free seat.
\<close>

theorem assign_accepts_infinite_pickup:
  "parseFloat (JStr ''Infinity'') = PInf
   \<and> scanCandidates PInf (Fin 0.01) (with_lat (JStr ''Infinity''))
       = [\<lparr>cid = ''v1'', cdriverId = Some ''driver1'', dist = NaN,
            passengerCount = 0, cfcmToken = None\<rparr>]
   \<and> assignDriverForBooking env0 id (with_lat (JStr ''Infinity'')) ''b1''
       = (Inr (Assigned ''v1'' None),
          \<lparr>bookings = [(''b1'', assigned0\<lparr>pickup :=
                          Some \<lparr>lat = JStr ''Infinity'', lng = JNum (Fin 0.01)\<rparr>\<rparr>)],
           vehicles = [(''v1'', vehicle0\<lparr>currentPassengers := Some [''b1'']\<rparr>)]\<rparr>)"
  by (simp add: assign_defs example_defs parse_defs)

text \<open>
  Claim C9. A call on a booking that is not pending returns without an error and leaves
  the store as it was. A call that assigned a booking leaves it not pending, so a second
  call on the same booking, whatever happened in between to other documents, is such a
  call.
\<close>

theorem assign_not_pending_noop:
  "(get_doc (bookings d) bookingId = Some b \<and> status b \<noteq> ''pending''
      \<longrightarrow> assignDriverForBooking e interfere d bookingId = (Inr Skipped, d))
   \<and> (assignDriverForBooking e interfere d bookingId = (Inr (Assigned vid msg), d')
      \<longrightarrow> assignDriverForBooking e' interfere' d' bookingId = (Inr Skipped, d'))"
proof (intro conjI impI)
  assume "get_doc (bookings d) bookingId = Some b \<and> status b \<noteq> ''pending''"
  then show "assignDriverForBooking e interfere d bookingId = (Inr Skipped, d)"
    by (simp add: assignDriverForBooking_def selectVehicle_not_pending)
next
  assume a: "assignDriverForBooking e interfere d bookingId = (Inr (Assigned vid msg), d')"
  then obtain chosen u where
    "runTransaction (assignTransaction e bookingId chosen) (interfere d) = (Inr u, d')"
    by (auto simp: assignDriverForBooking_def split: sum.splits selection.splits prod.splits)
  from runTransaction_assign_ok [OF this] obtain b' where
    "get_doc (bookings d') bookingId = Some b'" "status b' = ''assigned''" by blast
  then show "assignDriverForBooking e' interfere' d' bookingId = (Inr Skipped, d')"
    by (simp add: assignDriverForBooking_def selectVehicle_not_pending)
qed

theorem assign_not_pending_noop_witness:
  "assignDriverForBooking env0 id db0 ''b1'' = (Inr (Assigned ''v1'' None), db1)
   \<and> get_doc (bookings db1) ''b1'' = Some assigned0
   \<and> status assigned0 = ''assigned''
   \<and> assignDriverForBooking env0 id db1 ''b1'' = (Inr Skipped, db1)"
  using assign_not_pending_noop [of db0 "''b1''" _ env0 id "''v1''" None db1 env0 id] assign_db0
  by (simp add: db1_def assigned0_def get_doc_def)

section \<open>The haversine term\<close>

text \<open>
  In exact arithmetic the term under the two square roots lies between 0 and 1 for all
  coordinates, so both roots are of non-negative numbers and the distance is a finite
  number.
\<close>

lemma abs_prod_le: "\<bar>x * y\<bar> \<le> (x * x + y * y) / 2" for x y :: real
proof -
  have "0 \<le> (\<bar>x\<bar> - \<bar>y\<bar>) * (\<bar>x\<bar> - \<bar>y\<bar>)" by simp
  then have "2 * (\<bar>x\<bar> * \<bar>y\<bar>) \<le> \<bar>x\<bar> * \<bar>x\<bar> + \<bar>y\<bar> * \<bar>y\<bar>" by (simp add: algebra_simps)
  then show ?thesis by (simp add: abs_mult)
qed

lemma half_angle: "sin (x / 2) * sin (x / 2) = (1 - cos x) / 2" for x :: real
  using cos_double_sin [of "x / 2"] by (simp add: power2_eq_square)

lemma haversine_term_bounds:
  fixes p1 p2 dl :: real
  shows "0 \<le> sin ((p2 - p1) / 2) * sin ((p2 - p1) / 2) + cos p1 * cos p2 * sin (dl / 2) * sin (dl / 2)"
    and "sin ((p2 - p1) / 2) * sin ((p2 - p1) / 2) + cos p1 * cos p2 * sin (dl / 2) * sin (dl / 2) \<le> 1"
proof -
  define w where "w = sin p1 * sin p2 + cos p1 * cos p2 * cos dl"
  have a: "sin ((p2 - p1) / 2) * sin ((p2 - p1) / 2) + cos p1 * cos p2 * sin (dl / 2) * sin (dl / 2)
      = (1 - w) / 2"
  proof -
    have "sin ((p2 - p1) / 2) * sin ((p2 - p1) / 2) + cos p1 * cos p2 * (sin (dl / 2) * sin (dl / 2))
        = (1 - cos (p2 - p1)) / 2 + cos p1 * cos p2 * ((1 - cos dl) / 2)"
      by (simp only: half_angle)
    also have "\<dots> = (1 - w) / 2"
      by (simp add: w_def cos_diff field_simps)
    finally show ?thesis by (simp add: mult.assoc)
  qed
  have "\<bar>cos p1 * cos p2 * cos dl\<bar> = \<bar>cos p1 * cos p2\<bar> * \<bar>cos dl\<bar>" by (simp add: abs_mult)
  also have "\<dots> \<le> \<bar>cos p1 * cos p2\<bar> * 1"
    by (intro mult_left_mono) simp_all
  finally have c: "\<bar>cos p1 * cos p2 * cos dl\<bar> \<le> (cos p1 * cos p1 + cos p2 * cos p2) / 2"
    using abs_prod_le [of "cos p1" "cos p2"] by simp
  have s: "\<bar>sin p1 * sin p2\<bar> \<le> (sin p1 * sin p1 + sin p2 * sin p2) / 2" by (rule abs_prod_le)
  have one: "sin p1 * sin p1 + cos p1 * cos p1 = 1" "sin p2 * sin p2 + cos p2 * cos p2 = 1"
    using sin_cos_squared_add [of p1] sin_cos_squared_add [of p2] by (simp_all add: power2_eq_square)
  have "\<bar>w\<bar> \<le> \<bar>sin p1 * sin p2\<bar> + \<bar>cos p1 * cos p2 * cos dl\<bar>"
    unfolding w_def by (rule abs_triangle_ineq)
  also have "\<dots> \<le> (sin p1 * sin p1 + sin p2 * sin p2) / 2 + (cos p1 * cos p1 + cos p2 * cos p2) / 2"
    by (rule add_mono [OF s c])
  also have "\<dots> = 1"
  proof -
    from one have "sin p1 * sin p1 = 1 - cos p1 * cos p1" "sin p2 * sin p2 = 1 - cos p2 * cos p2"
      by linarith+
    then show ?thesis by (simp only:) (simp add: field_simps)
  qed
  finally have "\<bar>w\<bar> \<le> 1" .
  then show "0 \<le> sin ((p2 - p1) / 2) * sin ((p2 - p1) / 2) + cos p1 * cos p2 * sin (dl / 2) * sin (dl / 2)"
    and "sin ((p2 - p1) / 2) * sin ((p2 - p1) / 2) + cos p1 * cos p2 * sin (dl / 2) * sin (dl / 2) \<le> 1"
    unfolding a by simp_all
qed

lemma haversine_argument_in_range:
  "0 \<le> haversine_term lat1 lon1 lat2 lon2 \<and> haversine_term lat1 lon1 lat2 lon2 \<le> 1"
proof -
  have "toRad (lat2 - lat1) = toRad lat2 - toRad lat1"
    by (simp add: toRad_def field_simps)
  then show ?thesis
    using haversine_term_bounds [of "toRad lat2" "toRad lat1" "toRad (lon2 - lon1)"]
    by (simp add: haversine_term_def Let_def)
qed

lemma haversine_of_term_NaN: "haversine_of_term a = NaN \<longleftrightarrow> a < 0 \<or> 1 < a"
  by (auto simp: haversine_of_term_def js_sqrt_def Let_def)

lemma haversineDistanceKm_exact:
  "\<exists>x. haversineDistanceKm lat1 lon1 lat2 lon2 = Fin x"
proof -
  from haversine_argument_in_range [of lat1 lon1 lat2 lon2]
  have "haversine_of_term (haversine_term lat1 lon1 lat2 lon2) \<noteq> NaN"
    by (simp add: haversine_of_term_NaN)
  then show ?thesis
    by (auto simp: haversineDistanceKm_def haversine_of_term_def js_sqrt_def Let_def
        split: if_splits)
qed

lemma haversine_term_antipodes: "haversine_term (- 12) (- 179) 12 1 = 1"
proof -
  have r: "toRad (12 - - 12) / 2 = toRad 12" "toRad (1 - - 179) / 2 = pi / 2"
    "toRad (- 12) = - toRad 12"
    by (simp_all add: toRad_def)
  have "sin (toRad 12) * sin (toRad 12) + cos (toRad 12) * cos (toRad 12) = 1"
    using sin_cos_squared_add [of "toRad 12"] by (simp add: power2_eq_square)
  then show ?thesis
    unfolding haversine_term_def Let_def r by simp
qed

text \<open>
  Claim C8, at an input where the code departs from it. The points \<open>(-12, -179)\<close> and
  \<open>(12, 1)\<close> are antipodal: the exact haversine term is 1 and the exact distance is half
  the circumference. The function has no guard on the term: it takes the square roots of
  \<open>a\<close> and of \<open>1 - a\<close> as they are. In double arithmetic the term computed for these
  points is \<open>1 + 2^-52\<close>, the double next above 1; for that value \<open>1 - a\<close> is negative,
  its square root is NaN, and the distance returned is NaN.
\<close>

theorem haversine_unguarded_above_one:
  "haversine_term (- 12) (- 179) 12 1 = 1
   \<and> haversine_of_term 1 = Fin (6371 * pi)
   \<and> haversine_of_term (1 + 1 / 2 ^ 52) = NaN"
proof -
  have "atan2 1 0 = pi / 2" by (simp add: atan2_def)
  then have "haversine_of_term 1 = Fin (6371 * pi)"
    by (simp add: haversine_of_term_def js_sqrt_def)
  moreover have "haversine_of_term (1 + 1 / 2 ^ 52) = NaN"
    by (simp add: haversine_of_term_def js_sqrt_def)
  ultimately show ?thesis using haversine_term_antipodes by simp
qed

section \<open>The planner's runs\<close>

text \<open>
  A call of the distance function throws, so the clusterer returns only when it never
  reaches one, and no suggestion is ever built: the planner returns the empty list or
  throws.
\<close>

lemma increment_match_cases:
  "increment_match la lo hs = (if hs = [] then Inr None else Inl TypeError)"
  by (cases hs) (auto simp: imported_haversineDistanceKm_def)

lemma add_pickup_cases: "(\<exists>hs'. add_pickup hs b = Inr hs') \<or> add_pickup hs b = Inl TypeError"
  by (auto simp: add_pickup_def increment_match_cases split: option.splits)

lemma add_pickups_cases:
  "(\<exists>hs'. add_pickups hs bs = Inr hs') \<or> add_pickups hs bs = Inl TypeError"
proof (induction bs arbitrary: hs)
  case Nil
  then show ?case by simp
next
  case (Cons b bs)
  from add_pickup_cases [of hs b] show ?case
  proof
    assume "\<exists>hs'. add_pickup hs b = Inr hs'"
    then obtain hs' where "add_pickup hs b = Inr hs'" by blast
    with Cons.IH [of hs'] show ?thesis by simp
  next
    assume "add_pickup hs b = Inl TypeError"
    then show ?thesis by simp
  qed
qed

lemma identifyHotspots_cases:
  "(\<exists>hs. identifyHotspots bs = Inr hs) \<or> identifyHotspots bs = Inl TypeError"
  using add_pickups_cases [of "[]" bs] by (auto simp: identifyHotspots_def)

lemma anotherVehicleNearby_cases:
  "anotherVehicleNearby idle vid h = Inr False \<or> anotherVehicleNearby idle vid h = Inl TypeError"
  by (induction idle) (auto simp: imported_haversineDistanceKm_def split: option.splits)

lemma suggest_from_cases:
  "suggest_from idle vid loc hs = Inr None \<or> suggest_from idle vid loc hs = Inl TypeError"
proof (cases hs)
  case Nil
  then show ?thesis by simp
next
  case (Cons h hs')
  with anotherVehicleNearby_cases [of idle vid h] show ?thesis
    by (auto simp: imported_haversineDistanceKm_def)
qed

lemma suggest_for_cases:
  "suggest_for idle hs doc = Inr None \<or> suggest_for idle hs doc = Inl TypeError"
  using suggest_from_cases by (auto simp: suggest_for_def split: option.splits)

lemma collect_suggestions_cases:
  "collect_suggestions idle hs vs = Inr [] \<or> collect_suggestions idle hs vs = Inl TypeError"
proof (induction vs)
  case Nil
  then show ?case by simp
next
  case (Cons doc rest)
  with suggest_for_cases [of idle hs doc] show ?case by auto
qed

lemma generate_cases:
  "generateRebalanceSuggestions d now = Inr []
   \<or> generateRebalanceSuggestions d now = Inl TypeError"
proof -
  let ?idle = "getIdleVehicles d" and ?recent = "getRecentBookings d now 1"
  show ?thesis
  proof (cases "?idle = [] \<or> ?recent = []")
    case True
    then show ?thesis by (auto simp: generateRebalanceSuggestions_def Let_def)
  next
    case False
    from identifyHotspots_cases [of "map snd ?recent"] show ?thesis
    proof
      assume "\<exists>hs. identifyHotspots (map snd ?recent) = Inr hs"
      then obtain hs where hs: "identifyHotspots (map snd ?recent) = Inr hs" by blast
      from collect_suggestions_cases [of ?idle hs ?idle] False hs show ?thesis
        by (auto simp: generateRebalanceSuggestions_def Let_def array_sort_def)
    next
      assume "identifyHotspots (map snd ?recent) = Inl TypeError"
      with False show ?thesis by (auto simp: generateRebalanceSuggestions_def Let_def)
    qed
  qed
qed

lemma runRebalancer_cases:
  "runRebalancer now autoApply d = (Inr [], d) \<or> runRebalancer now autoApply d = (Inl TypeError, d)"
  using generate_cases [of d now] by (auto simp: runRebalancer_def)



lemmas planner_defs = generateRebalanceSuggestions_def getIdleVehicles_def getRecentBookings_def
  no_passengers_def created_ms_def identifyHotspots_def add_pickup_def truthy_def
  suggest_for_def imported_haversineDistanceKm_def array_sort_def

lemmas planner_data = polar_db_def polar_vehicle_def polar_booking_def fleet_db_def
  fleet_vehicle_def north_booking_def greenwich_booking_def

lemma hotspots_polar_db:
  "identifyHotspots (map snd (getRecentBookings polar_db 5600000 1))
     = Inr [\<lparr>hlocation = \<lparr>lat = - 90, lng = 10\<rparr>, count = 1\<rparr>]"
  by (simp add: planner_defs planner_data)

lemma hotspots_fleet_db:
  "identifyHotspots (map snd (getRecentBookings fleet_db 5600000 1))
     = Inr [\<lparr>hlocation = \<lparr>lat = 90, lng = 10\<rparr>, count = 1\<rparr>]"
  by (simp add: planner_defs planner_data)

lemma idle_polar_db: "getIdleVehicles polar_db = [(''v2'', polar_vehicle [] 20)]"
  by (simp add: planner_defs planner_data)

lemma idle_fleet_db: "map fst (getIdleVehicles fleet_db) = [''v1'', ''v2'', ''v3'', ''v4'', ''v5'']"
  by (simp add: planner_defs planner_data)

lemma generate_polar_db: "generateRebalanceSuggestions polar_db 5600000 = Inl TypeError"
  by (simp add: planner_defs planner_data)

lemma generate_fleet_db: "generateRebalanceSuggestions fleet_db 5600000 = Inl TypeError"
  by (simp add: planner_defs planner_data)

section \<open>Claims about the planner\<close>

text \<open>
  Claim C4, at an input where the code departs from it. A booking whose pickup is present,
  with longitude 0, is skipped: the test for a missing pickup is the truth value of each
  coordinate, and 0 is falsy. The same list with the pickup at the north pole gives one
  hotspot of count 1.
\<close>

theorem identifyHotspots_skips_zero_coordinate:
  "pickup greenwich_booking = Some \<lparr>lat = Some 51.4779, lng = Some 0\<rparr>
   \<and> identifyHotspots [greenwich_booking] = Inr []
   \<and> identifyHotspots [north_booking, greenwich_booking]
       = Inr [\<lparr>hlocation = \<lparr>lat = 90, lng = 10\<rparr>, count = 1\<rparr>]"
  by (simp add: identifyHotspots_def add_pickup_def truthy_def array_sort_def
      greenwich_booking_def north_booking_def)

text \<open>
  Claim C5, at an input where the code departs from it. The store has five idle vehicles
  with no passengers, each at a latitude of its own, and one recent pickup at the north
  pole, far from all of them: a run should produce five suggestions, apply three and
  return all five. The clusterer finds the one hotspot. For the first vehicle and this
  hotspot the planner asks whether another idle vehicle is nearby, calls the distance
  function for the second vehicle, and the call throws. The run ends with the
  \<open>TypeError\<close>; nothing is returned and no vehicle is written. On every store a run
  returns the empty list or throws, and leaves the store as it was.
\<close>

theorem runRebalancer_throws:
  "map fst (getIdleVehicles fleet_db) = [''v1'', ''v2'', ''v3'', ''v4'', ''v5'']
   \<and> identifyHotspots (map snd (getRecentBookings fleet_db 5600000 1))
       = Inr [\<lparr>hlocation = \<lparr>lat = 90, lng = 10\<rparr>, count = 1\<rparr>]
   \<and> runRebalancer 5600000 True fleet_db = (Inl TypeError, fleet_db)
   \<and> (\<forall>now autoApply d. runRebalancer now autoApply d = (Inr [], d)
          \<or> runRebalancer now autoApply d = (Inl TypeError, d))"
proof (intro conjI allI)
  show "map fst (getIdleVehicles fleet_db) = [''v1'', ''v2'', ''v3'', ''v4'', ''v5'']"
    by (rule idle_fleet_db)
  show "identifyHotspots (map snd (getRecentBookings fleet_db 5600000 1))
       = Inr [\<lparr>hlocation = \<lparr>lat = 90, lng = 10\<rparr>, count = 1\<rparr>]"
    by (rule hotspots_fleet_db)
  show "runRebalancer 5600000 True fleet_db = (Inl TypeError, fleet_db)"
    by (simp add: runRebalancer_def generate_fleet_db)
  show "runRebalancer now autoApply d = (Inr [], d)
          \<or> runRebalancer now autoApply d = (Inl TypeError, d)" for now autoApply d
    by (rule runRebalancer_cases)
qed

text \<open>
  Claim C6, at an input where the code departs from it. The store has one idle vehicle
  with no passengers, at the north pole, and one recent pickup at the south pole: the
  vehicle should get a suggestion whose priority is given by the formula. With no other
  vehicle to test, the planner goes on to the distance from the vehicle to the hotspot;
  the call throws before the priority is computed, and the planner ends with the
  \<open>TypeError\<close>. On every store the planner returns the empty list or throws: the line
  that computes a priority is never reached.
\<close>

theorem generate_throws_before_priority:
  "getIdleVehicles polar_db = [(''v2'', polar_vehicle [] 20)]
   \<and> identifyHotspots (map snd (getRecentBookings polar_db 5600000 1))
       = Inr [\<lparr>hlocation = \<lparr>lat = - 90, lng = 10\<rparr>, count = 1\<rparr>]
   \<and> anotherVehicleNearby (getIdleVehicles polar_db) ''v2''
        \<lparr>hlocation = \<lparr>lat = - 90, lng = 10\<rparr>, count = 1\<rparr> = Inr False
   \<and> generateRebalanceSuggestions polar_db 5600000 = Inl TypeError
   \<and> (\<forall>d now. generateRebalanceSuggestions d now = Inr []
          \<or> generateRebalanceSuggestions d now = Inl TypeError)"
proof (intro conjI allI)
  show "getIdleVehicles polar_db = [(''v2'', polar_vehicle [] 20)]"
    by (rule idle_polar_db)
  show "identifyHotspots (map snd (getRecentBookings polar_db 5600000 1))
       = Inr [\<lparr>hlocation = \<lparr>lat = - 90, lng = 10\<rparr>, count = 1\<rparr>]"
    by (rule hotspots_polar_db)
  show "anotherVehicleNearby (getIdleVehicles polar_db) ''v2''
        \<lparr>hlocation = \<lparr>lat = - 90, lng = 10\<rparr>, count = 1\<rparr> = Inr False"
    by (simp add: idle_polar_db)
  show "generateRebalanceSuggestions polar_db 5600000 = Inl TypeError"
    by (rule generate_polar_db)
  show "generateRebalanceSuggestions d now = Inr []
          \<or> generateRebalanceSuggestions d now = Inl TypeError" for d now
    by (rule generate_cases)
qed




end
